theory Spec2Isabelle
  imports Main "HOL-Library.Word" "HOL-Library.Monad_Syntax"
begin

unbundle bit_operations_syntax

section \<open>Bytes, slices and big-endian stores\<close>

text \<open>
  The Go source is \<^verbatim>\<open>vendor/github.com/pion/dtls/v2/crypto.go\<close>. A Go \<^verbatim>\<open>byte\<close> is an
  8-bit word and a \<^verbatim>\<open>[]byte\<close> a list of them. A function that can panic on an index out
  of range returns \<open>None\<close> there, so that "no error condition" is a statement to be proved
  and not an artefact of total list update.
\<close>

type_synonym byte = "8 word"
type_synonym bytes = "byte list"

text \<open>\<^verbatim>\<open>b[i] = v\<close>: Go panics when \<open>i\<close> is not an index of \<open>b\<close>.\<close>

definition store :: "bytes \<Rightarrow> nat \<Rightarrow> byte \<Rightarrow> bytes option" where
  "store b i v = (if i < length b then Some (b[i := v]) else None)"

text \<open>
  \<^verbatim>\<open>binary.BigEndian.PutUint16(b[off:], v)\<close>: the slice \<^verbatim>\<open>b[off:]\<close> shares the array of \<open>b\<close>,
  so the two bytes land at \<open>off\<close> and \<open>off + 1\<close> of \<open>b\<close>; the call panics when the slice is
  shorter than two bytes.
\<close>

definition PutUint16 :: "bytes \<Rightarrow> nat \<Rightarrow> 16 word \<Rightarrow> bytes option" where
  "PutUint16 b off v =
     (if off + 2 \<le> length b
      then Some (b[off := ucast (drop_bit 8 v), off + 1 := ucast v])
      else None)"

text \<open>\<^verbatim>\<open>binary.BigEndian.PutUint64(b[off:], v)\<close>: eight bytes, most significant first.\<close>

definition PutUint64 :: "bytes \<Rightarrow> nat \<Rightarrow> 64 word \<Rightarrow> bytes option" where
  "PutUint64 b off v =
     (if off + 8 \<le> length b
      then Some (b[off := ucast (drop_bit 56 v),
                   off + 1 := ucast (drop_bit 48 v),
                   off + 2 := ucast (drop_bit 40 v),
                   off + 3 := ucast (drop_bit 32 v),
                   off + 4 := ucast (drop_bit 24 v),
                   off + 5 := ucast (drop_bit 16 v),
                   off + 6 := ucast (drop_bit 8 v),
                   off + 7 := ucast v])
      else None)"

section \<open>The key-exchange message\<close>

text \<open>
  \<^verbatim>\<open>namedCurve\<close> is declared in another file of the package; the source converts it with
  \<^verbatim>\<open>uint16(namedCurve)\<close> and the wire format gives it two bytes, so it is a 16-bit word here.
\<close>

type_synonym namedCurve = "16 word"

text \<open>
  \<^verbatim>\<open>valueKeyMessage\<close>, statement by statement. \<^verbatim>\<open>byte(len(publicKey))\<close> keeps the low eight
  bits of the length.
\<close>

definition valueKeyMessage :: "bytes \<Rightarrow> bytes \<Rightarrow> bytes \<Rightarrow> namedCurve \<Rightarrow> bytes option" where
  "valueKeyMessage clientRandom serverRandom publicKey namedCurve =
     do {
       serverECDHParams \<leftarrow> Some (replicate 4 0);
       serverECDHParams \<leftarrow> store serverECDHParams 0 3;
       serverECDHParams \<leftarrow> PutUint16 serverECDHParams 1 namedCurve;
       serverECDHParams \<leftarrow> store serverECDHParams 3 (of_nat (length publicKey));
       plaintext \<leftarrow> Some [];
       plaintext \<leftarrow> Some (plaintext @ clientRandom);
       plaintext \<leftarrow> Some (plaintext @ serverRandom);
       plaintext \<leftarrow> Some (plaintext @ serverECDHParams);
       plaintext \<leftarrow> Some (plaintext @ publicKey);
       Some plaintext
     }"

section \<open>The associated data of a record\<close>

text \<open>
  \<^verbatim>\<open>recordLayerHeader\<close> and \<^verbatim>\<open>protocolVersion\<close> are declared in other files of the package.
  The fields read here are typed by their use: \<^verbatim>\<open>sequenceNumber\<close> is the argument of
  \<^verbatim>\<open>PutUint64\<close>, \<^verbatim>\<open>epoch\<close> of \<^verbatim>\<open>PutUint16\<close>, and the other three are stored in one byte
  each. \<^verbatim>\<open>payloadLen\<close> is a Go \<^verbatim>\<open>int\<close>; \<^verbatim>\<open>uint16(payloadLen)\<close> keeps its low sixteen bits,
  which is \<open>word_of_int\<close>.
\<close>

record protocolVersion =
  major :: byte
  minor :: byte

record recordLayerHeader =
  contentType :: byte
  protocolVersion :: protocolVersion
  epoch :: "16 word"
  sequenceNumber :: "64 word"

definition generateAEADAdditionalData :: "recordLayerHeader \<Rightarrow> int \<Rightarrow> bytes option" where
  "generateAEADAdditionalData h payloadLen =
     do {
       additionalData \<leftarrow> Some (replicate 13 0);
       additionalData \<leftarrow> PutUint64 additionalData 0 (sequenceNumber h);
       additionalData \<leftarrow> PutUint16 additionalData 0 (epoch h);
       additionalData \<leftarrow> store additionalData 8 (contentType h);
       additionalData \<leftarrow> store additionalData 9 (major (protocolVersion h));
       additionalData \<leftarrow> store additionalData 10 (minor (protocolVersion h));
       additionalData \<leftarrow> PutUint16 additionalData (length additionalData - 2) (word_of_int payloadLen);
       Some additionalData
     }"

section \<open>Errors, keys and certificates\<close>

text \<open>
  The sentinel errors of the package, by the names the source returns them under. An error
  handed back by the standard library (\<^verbatim>\<open>return err\<close>) is carried unchanged in
  \<open>libraryError\<close>; \<open>runtimePanic\<close> is not a returned error but a Go panic.
\<close>

datatype error =
    errLengthMismatch
  | errKeySignatureMismatch
  | errInvalidECDSASignature
  | errKeySignatureGenerateUnimplemented
  | errKeySignatureVerifyUnimplemented
  | errInvalidSignatureAlgorithm
  | libraryError string
  | runtimePanic

definition fromLibrary :: "string + 'a \<Rightarrow> error + 'a" where
  "fromLibrary r = (case r of Inl err \<Rightarrow> Inl (libraryError err) | Inr v \<Rightarrow> Inr v)"

text \<open>
  \<^verbatim>\<open>crypto.PrivateKey\<close> and the \<^verbatim>\<open>PublicKey\<close> of a certificate are empty interfaces; the
  type switches of the source tell three dynamic types apart and fall through on every
  other. The key material \<open>'k\<close> is opaque to this package.
\<close>

datatype 'k privateKey =
    ed25519_PrivateKey 'k
  | ecdsa_PrivateKey 'k
  | rsa_PrivateKey 'k
  | other_PrivateKey

datatype 'k publicKey =
    ed25519_PublicKey 'k
  | ecdsa_PublicKey 'k
  | rsa_PublicKey 'k
  | other_PublicKey

text \<open>\<^verbatim>\<open>x509.SignatureAlgorithm\<close> of the Go standard library.\<close>

datatype signatureAlgorithm =
    UnknownSignatureAlgorithm
  | MD2WithRSA | MD5WithRSA
  | SHA1WithRSA | SHA256WithRSA | SHA384WithRSA | SHA512WithRSA
  | DSAWithSHA1 | DSAWithSHA256
  | ECDSAWithSHA1 | ECDSAWithSHA256 | ECDSAWithSHA384 | ECDSAWithSHA512
  | SHA256WithRSAPSS | SHA384WithRSAPSS | SHA512WithRSAPSS
  | PureEd25519

text \<open>\<^verbatim>\<open>x509.ExtKeyUsage\<close> of the Go standard library.\<close>

datatype extKeyUsage =
    ExtKeyUsageAny
  | ExtKeyUsageServerAuth
  | ExtKeyUsageClientAuth
  | ExtKeyUsageCodeSigning
  | ExtKeyUsageEmailProtection

text \<open>
  The fields of \<^verbatim>\<open>x509.Certificate\<close> that the source reads (\<open>PublicKey\<close>,
  \<open>SignatureAlgorithm\<close>), its raw encoding, and the two fields that the options of the
  validators address: the extended key usages and the DNS names of the certificate.
\<close>

record 'k certificate =
  Raw :: bytes
  PublicKey :: "'k publicKey"
  SignatureAlgorithm :: signatureAlgorithm
  ExtKeyUsage :: "extKeyUsage list"
  DNSNames :: "string list"

text \<open>\<^verbatim>\<open>type ecdsaSignature struct { R, S *big.Int }\<close>; \<^verbatim>\<open>big.Int.Sign\<close> is the signum.\<close>

record ecdsaSignature =
  R :: int
  S :: int

definition Sign :: "int \<Rightarrow> int" where
  "Sign x = (if x < 0 then - 1 else if x = 0 then 0 else 1)"

text \<open>
  The fields of \<^verbatim>\<open>x509.VerifyOptions\<close> that either validator sets. A field a composite
  literal leaves out has its zero value: the empty string, the nil slice. \<open>'p\<close> is
  \<^verbatim>\<open>*x509.CertPool\<close>.
\<close>

record 'p verifyOptions =
  DNSName :: string
  Intermediates :: 'p
  Roots :: 'p
  CurrentTime :: int
  KeyUsages :: "extKeyUsage list"

section \<open>The standard library, as a parameter\<close>

text \<open>
  Every primitive the source calls outside the package: hashing, signing, verification,
  ASN.1 and X.509 decoding, certificate pools, chain building, the random source and the
  clock. \<^verbatim>\<open>hashAlgorithm\<close> with its methods \<^verbatim>\<open>digest\<close> and \<^verbatim>\<open>cryptoHash\<close> is declared in
  another file of the package and is a parameter as well (type \<open>'h\<close>).
  \<^item> \<open>sha256_Sum b\<close> is \<^verbatim>\<open>h := sha256.New(); h.Write(b); h.Sum(nil)\<close>, \<open>Inl\<close> the error of
    \<^verbatim>\<open>Write\<close>;
  \<^item> the three \<open>Sign\<close> fields are \<^verbatim>\<open>p.Sign(rand, message, opts)\<close> for the three key types,
    \<^verbatim>\<open>crypto.Hash\<close> being an unsigned integer;
  \<^item> \<open>asn1_Unmarshal b\<close> is \<^verbatim>\<open>asn1.Unmarshal(b, &ecdsaSignature{})\<close>: the bytes left over
    and the decoded structure, or the error;
  \<^item> \<open>rand_Reader\<close> and \<open>time_Now\<close> are what \<^verbatim>\<open>rand.Reader\<close> and \<^verbatim>\<open>time.Now()\<close> yield during
    the call.
\<close>

record ('h, 'k, 'p) library =
  sha256_Sum :: "bytes \<Rightarrow> string + bytes"
  digest :: "'h \<Rightarrow> bytes \<Rightarrow> bytes"
  cryptoHash :: "'h \<Rightarrow> nat"
  rand_Reader :: bytes
  ed25519_Sign :: "'k \<Rightarrow> bytes \<Rightarrow> bytes \<Rightarrow> nat \<Rightarrow> string + bytes"
  ecdsa_Sign :: "'k \<Rightarrow> bytes \<Rightarrow> bytes \<Rightarrow> nat \<Rightarrow> string + bytes"
  rsa_Sign :: "'k \<Rightarrow> bytes \<Rightarrow> bytes \<Rightarrow> nat \<Rightarrow> string + bytes"
  ed25519_Verify :: "'k \<Rightarrow> bytes \<Rightarrow> bytes \<Rightarrow> bool"
  ecdsa_Verify :: "'k \<Rightarrow> bytes \<Rightarrow> int \<Rightarrow> int \<Rightarrow> bool"
  rsa_VerifyPKCS1v15 :: "'k \<Rightarrow> nat \<Rightarrow> bytes \<Rightarrow> bytes \<Rightarrow> string + unit"
  asn1_Unmarshal :: "bytes \<Rightarrow> string + (bytes \<times> ecdsaSignature)"
  x509_ParseCertificate :: "bytes \<Rightarrow> string + 'k certificate"
  x509_NewCertPool :: 'p
  x509_AddCert :: "'p \<Rightarrow> 'k certificate \<Rightarrow> 'p"
  x509_Verify :: "'k certificate \<Rightarrow> 'p verifyOptions \<Rightarrow> string + 'k certificate list list"
  time_Now :: int

section \<open>Key-exchange signatures\<close>


definition verifyKeySignature ::
  "('h, 'k, 'p) library \<Rightarrow> bytes \<Rightarrow> bytes \<Rightarrow> 'h \<Rightarrow> bytes list \<Rightarrow> error + unit" where
  "verifyKeySignature L message remoteKeySignature hashAlgorithm rawCertificates =
     (if length rawCertificates = 0 then Inl errLengthMismatch
      else
        (case x509_ParseCertificate L (rawCertificates ! 0) of
           Inl err \<Rightarrow> Inl (libraryError err)
         | Inr certificate \<Rightarrow>
             (case PublicKey certificate of
                ed25519_PublicKey p \<Rightarrow>
                  (if \<not> ed25519_Verify L p message remoteKeySignature
                   then Inl errKeySignatureMismatch
                   else Inr ())
              | ecdsa_PublicKey p \<Rightarrow>
                  (case asn1_Unmarshal L remoteKeySignature of
                     Inl err \<Rightarrow> Inl (libraryError err)
                   | Inr (_, ecdsaSig) \<Rightarrow>
                       (if Sign (R ecdsaSig) \<le> 0 \<or> Sign (S ecdsaSig) \<le> 0
                        then Inl errInvalidECDSASignature
                        else
                          (let hashed = digest L hashAlgorithm message
                           in if \<not> ecdsa_Verify L p hashed (R ecdsaSig) (S ecdsaSig)
                              then Inl errKeySignatureMismatch
                              else Inr ())))
              | rsa_PublicKey p \<Rightarrow>
                  (if SignatureAlgorithm certificate
                        \<in> {SHA1WithRSA, SHA256WithRSA, SHA384WithRSA, SHA512WithRSA}
                   then
                     (let hashed = digest L hashAlgorithm message
                      in fromLibrary
                           (rsa_VerifyPKCS1v15 L p (cryptoHash L hashAlgorithm) hashed
                              remoteKeySignature))
                   else Inl errKeySignatureVerifyUnimplemented)
              | other_PublicKey \<Rightarrow> Inl errKeySignatureVerifyUnimplemented)))"

section \<open>CertificateVerify signatures\<close>

definition generateCertificateVerify ::
  "('h, 'k, 'p) library \<Rightarrow> bytes \<Rightarrow> 'k privateKey \<Rightarrow> 'h \<Rightarrow> error + bytes" where
  "generateCertificateVerify L handshakeBodies privateKey hashAlgorithm =
     (case sha256_Sum L handshakeBodies of
        Inl err \<Rightarrow> Inl (libraryError err)
      | Inr hashed \<Rightarrow>
          (case privateKey of
             ed25519_PrivateKey p \<Rightarrow>
               fromLibrary (ed25519_Sign L p (rand_Reader L) hashed 0)
           | ecdsa_PrivateKey p \<Rightarrow>
               fromLibrary (ecdsa_Sign L p (rand_Reader L) hashed (cryptoHash L hashAlgorithm))
           | rsa_PrivateKey p \<Rightarrow>
               fromLibrary (rsa_Sign L p (rand_Reader L) hashed (cryptoHash L hashAlgorithm))
           | other_PrivateKey \<Rightarrow> Inl errInvalidSignatureAlgorithm))"

definition verifyCertificateVerify ::
  "('h, 'k, 'p) library \<Rightarrow> bytes \<Rightarrow> 'h \<Rightarrow> bytes \<Rightarrow> bytes list \<Rightarrow> error + unit" where
  "verifyCertificateVerify L handshakeBodies hashAlgorithm remoteKeySignature rawCertificates =
     (if length rawCertificates = 0 then Inl errLengthMismatch
      else
        (case x509_ParseCertificate L (rawCertificates ! 0) of
           Inl err \<Rightarrow> Inl (libraryError err)
         | Inr certificate \<Rightarrow>
             (case PublicKey certificate of
                ed25519_PublicKey p \<Rightarrow>
                  (if \<not> ed25519_Verify L p handshakeBodies remoteKeySignature
                   then Inl errKeySignatureMismatch
                   else Inr ())
              | ecdsa_PublicKey p \<Rightarrow>
                  (case asn1_Unmarshal L remoteKeySignature of
                     Inl err \<Rightarrow> Inl (libraryError err)
                   | Inr (_, ecdsaSig) \<Rightarrow>
                       (if Sign (R ecdsaSig) \<le> 0 \<or> Sign (S ecdsaSig) \<le> 0
                        then Inl errInvalidECDSASignature
                        else
                          (let hash = digest L hashAlgorithm handshakeBodies
                           in if \<not> ecdsa_Verify L p hash (R ecdsaSig) (S ecdsaSig)
                              then Inl errKeySignatureMismatch
                              else Inr ())))
              | rsa_PublicKey p \<Rightarrow>
                  (if SignatureAlgorithm certificate
                        \<in> {SHA1WithRSA, SHA256WithRSA, SHA384WithRSA, SHA512WithRSA}
                   then
                     (let hash = digest L hashAlgorithm handshakeBodies
                      in fromLibrary
                           (rsa_VerifyPKCS1v15 L p (cryptoHash L hashAlgorithm) hash
                              remoteKeySignature))
                   else Inl errKeySignatureVerifyUnimplemented)
              | other_PublicKey \<Rightarrow> Inl errKeySignatureVerifyUnimplemented)))"

section \<open>Certificate chains\<close>

text \<open>
  The loop of \<^verbatim>\<open>loadCerts\<close>: \<open>certs\<close> is the slice built so far, the list the certificates
  still to parse. The first error ends the loop and is all that is returned.
\<close>

fun loadCerts_loop ::
  "('h, 'k, 'p) library \<Rightarrow> 'k certificate list \<Rightarrow> bytes list \<Rightarrow> error + 'k certificate list" where
  "loadCerts_loop L certs [] = Inr certs"
| "loadCerts_loop L certs (rawCert # rawCertificates) =
     (case x509_ParseCertificate L rawCert of
        Inl err \<Rightarrow> Inl (libraryError err)
      | Inr cert \<Rightarrow> loadCerts_loop L (certs @ [cert]) rawCertificates)"

definition loadCerts ::
  "('h, 'k, 'p) library \<Rightarrow> bytes list \<Rightarrow> error + 'k certificate list" where
  "loadCerts L rawCertificates =
     (if length rawCertificates = 0 then Inl errLengthMismatch
      else loadCerts_loop L [] rawCertificates)"

text \<open>\<^verbatim>\<open>for _, cert := range certs { pool.AddCert(cert) }\<close>\<close>

fun addCerts :: "('h, 'k, 'p) library \<Rightarrow> 'p \<Rightarrow> 'k certificate list \<Rightarrow> 'p" where
  "addCerts L pool [] = pool"
| "addCerts L pool (cert # certs) = addCerts L (x509_AddCert L pool cert) certs"

text \<open>
  The two validators. \<^verbatim>\<open>certificate[1:]\<close> and \<^verbatim>\<open>certificate[0]\<close> panic on an empty slice.
\<close>

definition verifyClientCert ::
  "('h, 'k, 'p) library \<Rightarrow> bytes list \<Rightarrow> 'p \<Rightarrow> error + 'k certificate list list" where
  "verifyClientCert L rawCertificates roots =
     (case loadCerts L rawCertificates of
        Inl err \<Rightarrow> Inl err
      | Inr certificate \<Rightarrow>
          (if length certificate < 1 then Inl runtimePanic
           else
             (let intermediateCAPool = x509_NewCertPool L;
                  intermediateCAPool = addCerts L intermediateCAPool (drop 1 certificate);
                  opts = \<lparr>DNSName = [],
                          Intermediates = intermediateCAPool,
                          Roots = roots,
                          CurrentTime = time_Now L,
                          KeyUsages = [ExtKeyUsageClientAuth]\<rparr>
              in fromLibrary (x509_Verify L (certificate ! 0) opts))))"

definition verifyServerCert ::
  "('h, 'k, 'p) library \<Rightarrow> bytes list \<Rightarrow> 'p \<Rightarrow> string \<Rightarrow> error + 'k certificate list list" where
  "verifyServerCert L rawCertificates roots serverName =
     (case loadCerts L rawCertificates of
        Inl err \<Rightarrow> Inl err
      | Inr certificate \<Rightarrow>
          (if length certificate < 1 then Inl runtimePanic
           else
             (let intermediateCAPool = x509_NewCertPool L;
                  intermediateCAPool = addCerts L intermediateCAPool (drop 1 certificate);
                  opts = \<lparr>DNSName = serverName,
                          Intermediates = intermediateCAPool,
                          Roots = roots,
                          CurrentTime = time_Now L,
                          KeyUsages = []\<rparr>
              in fromLibrary (x509_Verify L (certificate ! 0) opts))))"

section \<open>Reading the layouts back\<close>

text \<open>The number a byte string denotes, most significant byte first.\<close>

definition be_nat :: "bytes \<Rightarrow> nat" where
  "be_nat bs = foldl (\<lambda>acc b. acc * 256 + unat b) 0 bs"

section \<open>A deterministic stand-in for the library\<close>

text \<open>
  The concrete instances below run the package against a small deterministic library, in
  the way a test would inject a fake provider. Keys and hash algorithms are numbers and a
  pool is the list of its certificates.
  \<^item> A raw certificate is three bytes: the key type (1 Edwards-curve, 2 elliptic-curve DSA,
    3 RSA, anything else a key of no known type), the key, and the signature algorithm
    (4 for \<open>SHA256WithRSA\<close>, 13 for \<open>SHA256WithRSAPSS\<close>, 16 for \<open>PureEd25519\<close>). Two
    more bytes may follow: the extended key usage (1 server authentication, 2 client
    authentication, 3 any usage, anything else none declared) and the DNS name (1 for
    \<open>example.org\<close>, 2 for \<open>example.net\<close>, anything else none). Any other length does not
    parse.
  \<^item> A signature is the key followed by the message that was signed, so that the message a
    signer was given can be read off its output.
  \<^item> The stand-in for SHA-256 pads or cuts its input to 32 bytes; a negotiated digest
    prefixes the number of its algorithm.
  \<^item> An encoded \<open>(R, S)\<close> pair is two bytes, each read as a signed number.
\<close>

definition testKey :: "byte \<Rightarrow> byte \<Rightarrow> nat publicKey" where
  "testKey t k =
     (if t = 1 then ed25519_PublicKey (unat k)
      else if t = 2 then ecdsa_PublicKey (unat k)
      else if t = 3 then rsa_PublicKey (unat k)
      else other_PublicKey)"

definition testAlgorithm :: "byte \<Rightarrow> signatureAlgorithm" where
  "testAlgorithm a =
     (if a = 4 then SHA256WithRSA
      else if a = 13 then SHA256WithRSAPSS
      else if a = 16 then PureEd25519
      else UnknownSignatureAlgorithm)"

definition testUsage :: "byte \<Rightarrow> extKeyUsage list" where
  "testUsage u =
     (if u = 1 then [ExtKeyUsageServerAuth]
      else if u = 2 then [ExtKeyUsageClientAuth]
      else if u = 3 then [ExtKeyUsageAny]
      else [])"

definition testNames :: "byte \<Rightarrow> string list" where
  "testNames n =
     (if n = 1 then [''example.org'']
      else if n = 2 then [''example.net'']
      else [])"

definition testParse :: "bytes \<Rightarrow> string + nat certificate" where
  "testParse raw =
     (case raw of
        [t, k, a] \<Rightarrow>
          Inr \<lparr>Raw = raw, PublicKey = testKey t k, SignatureAlgorithm = testAlgorithm a,
               ExtKeyUsage = [], DNSNames = []\<rparr>
      | [t, k, a, u, n] \<Rightarrow>
          Inr \<lparr>Raw = raw, PublicKey = testKey t k, SignatureAlgorithm = testAlgorithm a,
               ExtKeyUsage = testUsage u, DNSNames = testNames n\<rparr>
      | _ \<Rightarrow> Inl ''x509: malformed certificate'')"

definition testUnmarshal :: "bytes \<Rightarrow> string + (bytes \<times> ecdsaSignature)" where
  "testUnmarshal b =
     (case b of
        [r, s] \<Rightarrow> Inr ([], \<lparr>R = sint r, S = sint s\<rparr>)
      | _ \<Rightarrow> Inl ''asn1: structure error'')"

text \<open>
  The stand-in for \<^verbatim>\<open>Certificate.Verify\<close> keeps the order and the rules of the Go function
  on the options that the validators set, with chain building cut down to the case Go
  tries first.
  \<^item> A non-empty \<open>DNSName\<close> must be one of the names of the certificate.
  \<^item> A leaf that is itself among the roots has the one path that consists of the leaf; no
    other path is built, so any other leaf is signed by an unknown authority.
  \<^item> The documentation of \<^verbatim>\<open>VerifyOptions.KeyUsages\<close> reads: "A chain is accepted if it
    allows any of the listed values. An empty list means ExtKeyUsageServerAuth. To accept
    any key usage, include ExtKeyUsageAny." A certificate that declares no usage, or
    declares \<open>ExtKeyUsageAny\<close>, allows every usage.
\<close>

definition testAllows :: "nat certificate \<Rightarrow> extKeyUsage list \<Rightarrow> bool" where
  "testAllows cert usages =
     (ExtKeyUsage cert = []
      \<or> ExtKeyUsageAny \<in> set (ExtKeyUsage cert)
      \<or> set usages \<inter> set (ExtKeyUsage cert) \<noteq> {})"

definition testVerify ::
  "nat certificate \<Rightarrow> nat certificate list verifyOptions
     \<Rightarrow> string + nat certificate list list" where
  "testVerify cert opts =
     (let keyUsages = (if KeyUsages opts = [] then [ExtKeyUsageServerAuth] else KeyUsages opts)
      in if DNSName opts \<noteq> [] \<and> DNSName opts \<notin> set (DNSNames cert)
         then Inl ''x509: certificate is not valid for the requested name''
         else if cert \<notin> set (Roots opts)
         then Inl ''x509: certificate signed by unknown authority''
         else if ExtKeyUsageAny \<in> set keyUsages then Inr [[cert]]
         else if testAllows cert keyUsages then Inr [[cert]]
         else Inl ''x509: certificate specifies an incompatible key usage'')"

definition testLibrary :: "(nat, nat, nat certificate list) library" where
  "testLibrary =
     \<lparr>sha256_Sum = (\<lambda>b. Inr (take 32 (b @ replicate 32 0))),
      digest = (\<lambda>h b. of_nat h # b),
      cryptoHash = (\<lambda>h. h),
      rand_Reader = [],
      ed25519_Sign = (\<lambda>k rnd msg opts. Inr (of_nat k # msg)),
      ecdsa_Sign = (\<lambda>k rnd msg opts. Inr (of_nat k # msg)),
      rsa_Sign = (\<lambda>k rnd msg opts. Inr (of_nat k # msg)),
      ed25519_Verify = (\<lambda>k msg sig. sig = of_nat k # msg),
      ecdsa_Verify = (\<lambda>k hashed r s. r = int k \<and> s = int (length hashed)),
      rsa_VerifyPKCS1v15 =
        (\<lambda>k h hashed sig.
           if sig = of_nat k # hashed then Inr () else Inl ''crypto/rsa: verification error''),
      asn1_Unmarshal = testUnmarshal,
      x509_ParseCertificate = testParse,
      x509_NewCertPool = [],
      x509_AddCert = (\<lambda>pool cert. pool @ [cert]),
      x509_Verify = testVerify,
      time_Now = 0\<rparr>"

section \<open>Arithmetic of the big-endian layout\<close>

lemma unat_drop_bit_div: "unat (drop_bit n w) = unat w div 2 ^ n"
  for w :: "'a::len word"
proof -
  have "unat (drop_bit n w) = drop_bit n (unat w)"
    by (rule unat_drop_bit_eq)
  then show ?thesis
    by (simp add: drop_bit_eq_div)
qed

lemma unat_ucast_byte: "unat (ucast w :: byte) = unat w mod 256"
  for w :: "'a::len word"
  by (simp add: unsigned_ucast_eq take_bit_eq_mod)

lemma be_nat_uint16: "be_nat [ucast (drop_bit 8 w), ucast w] = unat w"
  for w :: "16 word"
proof -
  have "unat w < 2 ^ 16"
    using unsigned_less [of w] by simp
  then have "unat w div 2 ^ 8 mod 256 = unat w div 2 ^ 8"
    by simp
  then show ?thesis
    by (simp only: be_nat_def foldl.simps unat_ucast_byte unat_drop_bit_div) simp
qed

lemma six_digits_base_256:
  "1099511627776 * (x div 1099511627776 mod 256) + 4294967296 * (x div 4294967296 mod 256)
   + 16777216 * (x div 16777216 mod 256) + 65536 * (x div 65536 mod 256)
   + 256 * (x div 256 mod 256) + x mod 256 = x mod 281474976710656"
  for x :: nat
  using mod_mult2_eq [of x 1099511627776 256] mod_mult2_eq [of x 4294967296 256]
    mod_mult2_eq [of x 16777216 256] mod_mult2_eq [of x 65536 256] mod_mult2_eq [of x 256 256]
  by simp

lemma be_nat_uint48:
  "be_nat [ucast (drop_bit 40 w), ucast (drop_bit 32 w), ucast (drop_bit 24 w),
           ucast (drop_bit 16 w), ucast (drop_bit 8 w), ucast w] = unat w mod 2 ^ 48"
  for w :: "64 word"
  using six_digits_base_256 [of "unat w"]
  by (simp only: be_nat_def foldl.simps unat_ucast_byte unat_drop_bit_div)
     (simp add: algebra_simps)

lemma ucast_drop_bit_take_bit_48:
  "n + 8 \<le> 48 \<Longrightarrow> (ucast (drop_bit n (take_bit 48 s)) :: byte) = ucast (drop_bit n s)"
  for s :: "64 word"
  by (rule bit_word_eqI) (auto simp: bit_simps)

lemma ucast_take_bit_48: "(ucast (take_bit 48 s) :: byte) = ucast s"
  for s :: "64 word"
  by (rule bit_word_eqI) (auto simp: bit_simps)

section \<open>The key-exchange message is a plain concatenation\<close>

lemma valueKeyMessage_eq:
  "valueKeyMessage clientRandom serverRandom publicKey namedCurve =
     Some (clientRandom @ serverRandom
           @ [3, ucast (drop_bit 8 namedCurve), ucast namedCurve, of_nat (length publicKey)]
           @ publicKey)"
  by (simp add: valueKeyMessage_def store_def PutUint16_def numeral_eq_Suc)

text \<open>
  C3, as amended. For all inputs the canonicalizer returns, without any error or panic,
  \<open>clientRandom || serverRandom || curveParams || publicKey\<close>, where \<open>curveParams\<close> is four
  bytes: the tag 3 of a named curve, the curve identifier in two bytes, most significant
  first, and one byte holding the length of \<open>publicKey\<close> modulo 256 (so the length itself
  whenever it is at most 255).
\<close>

theorem valueKeyMessage_layout:
  "\<exists>tag hi lo n.
     valueKeyMessage clientRandom serverRandom publicKey namedCurve
       = Some (clientRandom @ serverRandom @ [tag, hi, lo, n] @ publicKey)
     \<and> tag = 3
     \<and> be_nat [hi, lo] = unat namedCurve
     \<and> unat n = length publicKey mod 256"
  by (simp add: valueKeyMessage_eq be_nat_uint16 unat_of_nat)

text \<open>
  C3, as stated, says that the length byte equals the length of \<open>publicKey\<close>. A key of 256
  bytes is given the length byte 0.
\<close>

theorem valueKeyMessage_length_byte_counterexample:
  "valueKeyMessage [] [] (replicate 256 0) 29 = Some ([3, 0, 29, 0] @ replicate 256 0)
   \<and> unat (the (valueKeyMessage [] [] (replicate 256 0) 29) ! 3)
       \<noteq> length (replicate 256 (0 :: byte))"
  by (simp add: valueKeyMessage_eq)

text \<open>
  C10. For every \<open>publicKey\<close> longer than 255 bytes the canonicalizer still returns a
  message: its length byte is the length modulo 256, the whole key follows it, and so the
  declared and the actual length of the key differ.
\<close>

theorem valueKeyMessage_long_key:
  assumes "255 < length publicKey"
  shows "\<exists>n. valueKeyMessage clientRandom serverRandom publicKey namedCurve
             = Some (clientRandom @ serverRandom
                     @ [3, ucast (drop_bit 8 namedCurve), ucast namedCurve, n] @ publicKey)
           \<and> unat n = length publicKey mod 256
           \<and> unat n \<noteq> length publicKey"
proof -
  let ?n = "of_nat (length publicKey) :: byte"
  have "unat ?n = length publicKey mod 256"
    by (simp add: unat_of_nat)
  moreover have "length publicKey mod 256 < 256"
    by simp
  ultimately have "unat ?n \<noteq> length publicKey"
    using assms by linarith
  then show ?thesis
    by (simp add: valueKeyMessage_eq unat_of_nat)
qed

theorem valueKeyMessage_long_key_witness:
  "255 < length (replicate 256 (7 :: byte))
   \<and> valueKeyMessage [1] [2] (replicate 256 7) 29 = Some ([1, 2, 3, 0, 29, 0] @ replicate 256 7)"
proof -
  have long: "255 < length (replicate 256 (7 :: byte))"
    by simp
  from valueKeyMessage_long_key [OF long, of "[1]" "[2]" 29]
  obtain n where
    "valueKeyMessage [1] [2] (replicate 256 7) 29
       = Some ([1] @ [2] @ [3, ucast (drop_bit 8 (29 :: 16 word)), ucast (29 :: 16 word), n]
               @ replicate 256 7)"
    and "unat n = length (replicate 256 (7 :: byte)) mod 256"
    by blast
  then show ?thesis
    by (simp add: unat_eq_0)
qed

section \<open>The associated data is thirteen bytes in a fixed layout\<close>

lemma generateAEADAdditionalData_eq:
  "generateAEADAdditionalData h payloadLen =
     Some [ucast (drop_bit 8 (epoch h)), ucast (epoch h),
           ucast (drop_bit 40 (sequenceNumber h)), ucast (drop_bit 32 (sequenceNumber h)),
           ucast (drop_bit 24 (sequenceNumber h)), ucast (drop_bit 16 (sequenceNumber h)),
           ucast (drop_bit 8 (sequenceNumber h)), ucast (sequenceNumber h),
           contentType h, major (protocolVersion h), minor (protocolVersion h),
           ucast (drop_bit 8 (word_of_int payloadLen :: 16 word)),
           ucast (word_of_int payloadLen :: 16 word)]"
  by (simp add: generateAEADAdditionalData_def store_def PutUint16_def PutUint64_def
      numeral_eq_Suc)

text \<open>
  C2. For every header and payload length the builder returns thirteen bytes: the epoch in
  bytes 0 and 1, the low 48 bits of the sequence number in bytes 2 to 7, the content type in
  byte 8, the version in bytes 9 and 10 and the payload length as a 16-bit number in bytes
  11 and 12, all most significant byte first. Bits 48 and above of the sequence number do
  not reach the output. The header \<open>{epoch = 1, sequenceNumber = 5, contentType = 23,
  version = {254, 253}}\<close> with payload length 16 gives
  \<open>00 01 00 00 00 00 00 05 17 FE FD 00 10\<close>.
\<close>

theorem generateAEADAdditionalData_layout:
  "(\<exists>out.
      generateAEADAdditionalData h payloadLen = Some out
      \<and> length out = 13
      \<and> be_nat (take 2 out) = unat (epoch h)
      \<and> be_nat (take 6 (drop 2 out)) = unat (sequenceNumber h) mod 2 ^ 48
      \<and> out ! 8 = contentType h
      \<and> out ! 9 = major (protocolVersion h)
      \<and> out ! 10 = minor (protocolVersion h)
      \<and> int (be_nat (drop 11 out)) = payloadLen mod 2 ^ 16)
   \<and> generateAEADAdditionalData (h\<lparr>sequenceNumber := take_bit 48 (sequenceNumber h)\<rparr>) payloadLen
       = generateAEADAdditionalData h payloadLen
   \<and> generateAEADAdditionalData
         \<lparr>contentType = 23, protocolVersion = \<lparr>major = 254, minor = 253\<rparr>,
          epoch = 1, sequenceNumber = 5\<rparr> 16
       = Some [0x00, 0x01, 0x00, 0x00, 0x00, 0x00, 0x00, 0x05, 0x17, 0xFE, 0xFD, 0x00, 0x10]"
proof (intro conjI)
  show "\<exists>out.
      generateAEADAdditionalData h payloadLen = Some out
      \<and> length out = 13
      \<and> be_nat (take 2 out) = unat (epoch h)
      \<and> be_nat (take 6 (drop 2 out)) = unat (sequenceNumber h) mod 2 ^ 48
      \<and> out ! 8 = contentType h
      \<and> out ! 9 = major (protocolVersion h)
      \<and> out ! 10 = minor (protocolVersion h)
      \<and> int (be_nat (drop 11 out)) = payloadLen mod 2 ^ 16"
    by (simp add: generateAEADAdditionalData_eq be_nat_uint16 be_nat_uint48
        uint_word_of_int)
  show "generateAEADAdditionalData (h\<lparr>sequenceNumber := take_bit 48 (sequenceNumber h)\<rparr>)
          payloadLen
        = generateAEADAdditionalData h payloadLen"
    by (simp add: generateAEADAdditionalData_eq ucast_drop_bit_take_bit_48 ucast_take_bit_48)
  show "generateAEADAdditionalData
         \<lparr>contentType = 23, protocolVersion = \<lparr>major = 254, minor = 253\<rparr>,
          epoch = 1, sequenceNumber = 5\<rparr> 16
       = Some [0x00, 0x01, 0x00, 0x00, 0x00, 0x00, 0x00, 0x05, 0x17, 0xFE, 0xFD, 0x00, 0x10]"
    by (simp add: generateAEADAdditionalData_eq)
qed

section \<open>Dispatch of the key-exchange signer\<close>


section \<open>Empty chains\<close>

text \<open>
  C6. With an empty certificate chain \<open>verifyKeySignature\<close>, \<open>verifyCertificateVerify\<close>,
  \<open>loadCerts\<close>, \<open>verifyClientCert\<close> and \<open>verifyServerCert\<close> all fail with
  \<open>errLengthMismatch\<close>, the package's empty-chain error, whatever the other arguments.
\<close>

theorem empty_chain_rejected:
  "verifyKeySignature L message remoteKeySignature hashAlgorithm [] = Inl errLengthMismatch
   \<and> verifyCertificateVerify L handshakeBodies hashAlgorithm remoteKeySignature []
       = Inl errLengthMismatch
   \<and> loadCerts L [] = Inl errLengthMismatch
   \<and> verifyClientCert L [] roots = Inl errLengthMismatch
   \<and> verifyServerCert L [] roots serverName = Inl errLengthMismatch"
  by (simp add: verifyKeySignature_def verifyCertificateVerify_def loadCerts_def
      verifyClientCert_def verifyServerCert_def)

section \<open>Non-positive components of an elliptic-curve DSA signature\<close>

lemma Sign_le_0: "Sign x \<le> 0 \<longleftrightarrow> x \<le> 0"
  by (simp add: Sign_def)

text \<open>
  C5. When the leaf certificate carries an elliptic-curve DSA key and the signature decodes
  to a pair \<open>(R, S)\<close> with \<open>R \<le> 0\<close> or \<open>S \<le> 0\<close>, both verifiers fail with
  \<open>errInvalidECDSASignature\<close>. No digest is taken and no signature is checked on the way:
  the result is the same whatever \<open>digest\<close> and \<open>ecdsa.Verify\<close> would compute.
\<close>

theorem ecdsa_nonpositive_rejected:
  assumes "x509_ParseCertificate L leaf = Inr certificate"
    and "PublicKey certificate = ecdsa_PublicKey p"
    and "asn1_Unmarshal L remoteKeySignature = Inr (rest, ecdsaSig)"
    and "R ecdsaSig \<le> 0 \<or> S ecdsaSig \<le> 0"
  shows "verifyKeySignature (L\<lparr>digest := d, ecdsa_Verify := v\<rparr>) message remoteKeySignature
           hashAlgorithm (leaf # intermediates) = Inl errInvalidECDSASignature
       \<and> verifyCertificateVerify (L\<lparr>digest := d, ecdsa_Verify := v\<rparr>) handshakeBodies
           hashAlgorithm remoteKeySignature (leaf # intermediates) = Inl errInvalidECDSASignature"
  using assms
  by (simp add: verifyKeySignature_def verifyCertificateVerify_def Sign_le_0)

theorem ecdsa_nonpositive_rejected_witness:
  "x509_ParseCertificate testLibrary [2, 7, 0]
     = Inr \<lparr>Raw = [2, 7, 0], PublicKey = ecdsa_PublicKey 7,
            SignatureAlgorithm = UnknownSignatureAlgorithm,
            ExtKeyUsage = [], DNSNames = []\<rparr>
   \<and> asn1_Unmarshal testLibrary [0, 5] = Inr ([], \<lparr>R = 0, S = 5\<rparr>)
   \<and> verifyKeySignature testLibrary [1, 2, 3] [0, 5] 4 [[2, 7, 0]]
       = Inl errInvalidECDSASignature
   \<and> verifyCertificateVerify testLibrary [1, 2, 3] 4 [0, 5] [[2, 7, 0]]
       = Inl errInvalidECDSASignature"
proof -
  have parse: "x509_ParseCertificate testLibrary [2, 7, 0]
     = Inr \<lparr>Raw = [2, 7, 0], PublicKey = ecdsa_PublicKey 7,
            SignatureAlgorithm = UnknownSignatureAlgorithm,
            ExtKeyUsage = [], DNSNames = []\<rparr>"
    by (simp add: testLibrary_def testParse_def testKey_def testAlgorithm_def)
  have key: "PublicKey \<lparr>Raw = [2, 7, 0], PublicKey = ecdsa_PublicKey (7 :: nat),
                        SignatureAlgorithm = UnknownSignatureAlgorithm,
            ExtKeyUsage = [], DNSNames = []\<rparr>
     = ecdsa_PublicKey 7"
    by simp
  have decode: "asn1_Unmarshal testLibrary [0, 5] = Inr ([], \<lparr>R = 0, S = 5\<rparr>)"
    by (simp add: testLibrary_def testUnmarshal_def)
  have nonpositive: "R \<lparr>R = 0, S = 5\<rparr> \<le> 0 \<or> S \<lparr>R = 0, S = 5\<rparr> \<le> 0"
    by simp
  from ecdsa_nonpositive_rejected [OF parse key decode nonpositive,
      where d = "digest testLibrary" and v = "ecdsa_Verify testLibrary"
        and message = "[1, 2, 3]" and handshakeBodies = "[1, 2, 3]" and hashAlgorithm = 4
        and intermediates = "[]"]
  show ?thesis
    using parse decode by simp
qed

section \<open>Loading a chain\<close>

lemma loadCerts_loop_all_parse:
  "list_all2 (\<lambda>raw cert. x509_ParseCertificate L raw = Inr cert) rawCertificates parsed
     \<Longrightarrow> loadCerts_loop L certs rawCertificates = Inr (certs @ parsed)"
proof (induction rawCertificates arbitrary: certs parsed)
  case Nil
  then show ?case by simp
next
  case (Cons raw rawCertificates)
  then obtain cert parsed' where "parsed = cert # parsed'"
      and "x509_ParseCertificate L raw = Inr cert"
      and "list_all2 (\<lambda>raw cert. x509_ParseCertificate L raw = Inr cert) rawCertificates parsed'"
    by (auto simp: list_all2_Cons1)
  with Cons.IH [of parsed' "certs @ [cert]"] show ?case
    by simp
qed

lemma loadCerts_loop_first_failure:
  assumes "list_all2 (\<lambda>raw cert. x509_ParseCertificate L raw = Inr cert) good parsed"
    and "x509_ParseCertificate L bad = Inl err"
  shows "loadCerts_loop L certs (good @ bad # rest) = Inl (libraryError err)"
  using assms
proof (induction good arbitrary: certs parsed)
  case Nil
  then show ?case by simp
next
  case (Cons raw good)
  then obtain cert parsed' where "parsed = cert # parsed'"
      and "x509_ParseCertificate L raw = Inr cert"
      and "list_all2 (\<lambda>raw cert. x509_ParseCertificate L raw = Inr cert) good parsed'"
    by (auto simp: list_all2_Cons1)
  with Cons.IH [of parsed' "certs @ [cert]"] Cons.prems(2) show ?case
    by simp
qed

lemma loadCerts_loop_result:
  "loadCerts_loop L certs rawCertificates = Inr out \<Longrightarrow>
     \<exists>parsed. out = certs @ parsed
       \<and> list_all2 (\<lambda>raw cert. x509_ParseCertificate L raw = Inr cert) rawCertificates parsed"
proof (induction rawCertificates arbitrary: certs)
  case Nil
  then show ?case by simp
next
  case (Cons raw rawCertificates)
  then show ?case
    by (fastforce split: sum.splits simp: list_all2_Cons1)
qed

text \<open>
  C7. \<open>loadCerts\<close> parses the elements of a non-empty chain in order. If the certificates
  before some element all parse and that element does not, the call fails with the parse
  error of that element, and an error result carries no certificates. It succeeds exactly
  when the chain is non-empty and every element parses, with the parsed certificates in the
  order of the chain. In particular a chain whose second certificate does not parse yields
  a parse error.
\<close>

theorem loadCerts_fail_fast:
  "(list_all2 (\<lambda>raw cert. x509_ParseCertificate L raw = Inr cert) good parsed
      \<and> x509_ParseCertificate L bad = Inl err
      \<longrightarrow> loadCerts L (good @ bad # rest) = Inl (libraryError err))
   \<and> (loadCerts L rawCertificates = Inr certs
      \<longleftrightarrow> rawCertificates \<noteq> []
          \<and> list_all2 (\<lambda>raw cert. x509_ParseCertificate L raw = Inr cert) rawCertificates certs)
   \<and> (x509_ParseCertificate L second = Inl err
      \<longrightarrow> (\<exists>err'. loadCerts L (first # second # others) = Inl (libraryError err')))"
proof (intro conjI impI)
  assume "list_all2 (\<lambda>raw cert. x509_ParseCertificate L raw = Inr cert) good parsed
      \<and> x509_ParseCertificate L bad = Inl err"
  then show "loadCerts L (good @ bad # rest) = Inl (libraryError err)"
    using loadCerts_loop_first_failure [of L good parsed bad err "[]" rest]
    by (simp add: loadCerts_def)
next
  show "loadCerts L rawCertificates = Inr certs
      \<longleftrightarrow> rawCertificates \<noteq> []
          \<and> list_all2 (\<lambda>raw cert. x509_ParseCertificate L raw = Inr cert) rawCertificates certs"
    using loadCerts_loop_all_parse [of L rawCertificates certs "[]"]
      loadCerts_loop_result [of L "[]" rawCertificates certs]
    by (auto simp: loadCerts_def)
next
  assume "x509_ParseCertificate L second = Inl err"
  then show "\<exists>err'. loadCerts L (first # second # others) = Inl (libraryError err')"
    by (simp add: loadCerts_def split: sum.splits)
qed

theorem loadCerts_fail_fast_witness:
  "x509_ParseCertificate testLibrary [1, 7, 16]
     = Inr \<lparr>Raw = [1, 7, 16], PublicKey = ed25519_PublicKey 7, SignatureAlgorithm = PureEd25519,
            ExtKeyUsage = [], DNSNames = []\<rparr>
   \<and> x509_ParseCertificate testLibrary [9] = Inl ''x509: malformed certificate''
   \<and> loadCerts testLibrary [[1, 7, 16], [9], [3, 9, 4]]
       = Inl (libraryError ''x509: malformed certificate'')
   \<and> (\<exists>err'. loadCerts testLibrary [[1, 7, 16], [9], [3, 9, 4]] = Inl (libraryError err'))"
proof -
  let ?leaf = "\<lparr>Raw = [1, 7, 16], PublicKey = ed25519_PublicKey (7 :: nat),
                 SignatureAlgorithm = PureEd25519,
            ExtKeyUsage = [], DNSNames = []\<rparr>"
  note fail_fast = loadCerts_fail_fast [of testLibrary "[[1, 7, 16]]" "[?leaf]" "[9]"
      "''x509: malformed certificate''" "[[3, 9, 4]]" _ _ "[9]" "[1, 7, 16]" "[[3, 9, 4]]"]
  have good: "x509_ParseCertificate testLibrary [1, 7, 16] = Inr ?leaf"
    by (simp add: testLibrary_def testParse_def testKey_def testAlgorithm_def)
  have bad: "x509_ParseCertificate testLibrary [9] = Inl ''x509: malformed certificate''"
    by (simp add: testLibrary_def testParse_def testKey_def testAlgorithm_def)
  have "list_all2 (\<lambda>raw cert. x509_ParseCertificate testLibrary raw = Inr cert)
          [[1, 7, 16]] [?leaf]"
    using good by simp
  with bad fail_fast
  have "loadCerts testLibrary ([[1, 7, 16]] @ [9] # [[3, 9, 4]])
          = Inl (libraryError ''x509: malformed certificate'')"
    by blast
  moreover from bad fail_fast
  have "\<exists>err'. loadCerts testLibrary [[1, 7, 16], [9], [3, 9, 4]] = Inl (libraryError err')"
    by blast
  ultimately show ?thesis
    using good bad by simp
qed

section \<open>RSA keys and keys of no supported type\<close>

text \<open>
  C8. In both verifiers, when the leaf certificate's key is an RSA key, the signature is
  checked (PKCS#1 v1.5, over the digest of the negotiated hash) exactly when the
  certificate's declared signature algorithm is one of \<open>SHA1WithRSA\<close>, \<open>SHA256WithRSA\<close>,
  \<open>SHA384WithRSA\<close>, \<open>SHA512WithRSA\<close>; with any other declared algorithm, and with a key
  that is none of the three supported types, the call fails with
  \<open>errKeySignatureVerifyUnimplemented\<close>, the package's unsupported-key-type error.
\<close>

theorem rsa_only_pkcs1v15_families:
  assumes "x509_ParseCertificate L leaf = Inr certificate"
  shows
    "(PublicKey certificate = rsa_PublicKey p
        \<and> SignatureAlgorithm certificate \<in> {SHA1WithRSA, SHA256WithRSA, SHA384WithRSA, SHA512WithRSA}
      \<longrightarrow> verifyKeySignature L message remoteKeySignature hashAlgorithm (leaf # intermediates)
            = fromLibrary (rsa_VerifyPKCS1v15 L p (cryptoHash L hashAlgorithm)
                (digest L hashAlgorithm message) remoteKeySignature)
          \<and> verifyCertificateVerify L handshakeBodies hashAlgorithm remoteKeySignature
              (leaf # intermediates)
            = fromLibrary (rsa_VerifyPKCS1v15 L p (cryptoHash L hashAlgorithm)
                (digest L hashAlgorithm handshakeBodies) remoteKeySignature))
     \<and> (PublicKey certificate = rsa_PublicKey p
        \<and> SignatureAlgorithm certificate \<notin> {SHA1WithRSA, SHA256WithRSA, SHA384WithRSA, SHA512WithRSA}
      \<longrightarrow> verifyKeySignature L message remoteKeySignature hashAlgorithm (leaf # intermediates)
            = Inl errKeySignatureVerifyUnimplemented
          \<and> verifyCertificateVerify L handshakeBodies hashAlgorithm remoteKeySignature
              (leaf # intermediates)
            = Inl errKeySignatureVerifyUnimplemented)
     \<and> (PublicKey certificate = other_PublicKey
      \<longrightarrow> verifyKeySignature L message remoteKeySignature hashAlgorithm (leaf # intermediates)
            = Inl errKeySignatureVerifyUnimplemented
          \<and> verifyCertificateVerify L handshakeBodies hashAlgorithm remoteKeySignature
              (leaf # intermediates)
            = Inl errKeySignatureVerifyUnimplemented)"
  using assms
  by (simp add: verifyKeySignature_def verifyCertificateVerify_def)

theorem rsa_only_pkcs1v15_families_witness:
  "x509_ParseCertificate testLibrary [3, 9, 4]
     = Inr \<lparr>Raw = [3, 9, 4], PublicKey = rsa_PublicKey 9, SignatureAlgorithm = SHA256WithRSA,
            ExtKeyUsage = [], DNSNames = []\<rparr>
   \<and> verifyKeySignature testLibrary [1, 2, 3] [9, 4, 1, 2, 3] 4 [[3, 9, 4]] = Inr ()
   \<and> verifyCertificateVerify testLibrary [1, 2, 3] 4 [9, 4, 1, 2, 3] [[3, 9, 4]] = Inr ()
   \<and> x509_ParseCertificate testLibrary [3, 9, 13]
     = Inr \<lparr>Raw = [3, 9, 13], PublicKey = rsa_PublicKey 9, SignatureAlgorithm = SHA256WithRSAPSS,
            ExtKeyUsage = [], DNSNames = []\<rparr>
   \<and> verifyKeySignature testLibrary [1, 2, 3] [9, 4, 1, 2, 3] 4 [[3, 9, 13]]
       = Inl errKeySignatureVerifyUnimplemented
   \<and> verifyCertificateVerify testLibrary [1, 2, 3] 4 [9, 4, 1, 2, 3] [[3, 9, 13]]
       = Inl errKeySignatureVerifyUnimplemented
   \<and> x509_ParseCertificate testLibrary [5, 9, 4]
     = Inr \<lparr>Raw = [5, 9, 4], PublicKey = other_PublicKey, SignatureAlgorithm = SHA256WithRSA,
            ExtKeyUsage = [], DNSNames = []\<rparr>
   \<and> verifyKeySignature testLibrary [1, 2, 3] [9, 4, 1, 2, 3] 4 [[5, 9, 4]]
       = Inl errKeySignatureVerifyUnimplemented
   \<and> verifyCertificateVerify testLibrary [1, 2, 3] 4 [9, 4, 1, 2, 3] [[5, 9, 4]]
       = Inl errKeySignatureVerifyUnimplemented"
proof -
  have pkcs: "x509_ParseCertificate testLibrary [3, 9, 4]
     = Inr \<lparr>Raw = [3, 9, 4], PublicKey = rsa_PublicKey 9, SignatureAlgorithm = SHA256WithRSA,
            ExtKeyUsage = [], DNSNames = []\<rparr>"
    by (simp add: testLibrary_def testParse_def testKey_def testAlgorithm_def)
  have pss: "x509_ParseCertificate testLibrary [3, 9, 13]
     = Inr \<lparr>Raw = [3, 9, 13], PublicKey = rsa_PublicKey 9, SignatureAlgorithm = SHA256WithRSAPSS,
            ExtKeyUsage = [], DNSNames = []\<rparr>"
    by (simp add: testLibrary_def testParse_def testKey_def testAlgorithm_def)
  have other: "x509_ParseCertificate testLibrary [5, 9, 4]
     = Inr \<lparr>Raw = [5, 9, 4], PublicKey = other_PublicKey, SignatureAlgorithm = SHA256WithRSA,
            ExtKeyUsage = [], DNSNames = []\<rparr>"
    by (simp add: testLibrary_def testParse_def testKey_def testAlgorithm_def)
  have verified: "fromLibrary (rsa_VerifyPKCS1v15 testLibrary 9 (cryptoHash testLibrary 4)
      (digest testLibrary 4 [1, 2, 3]) [9, 4, 1, 2, 3]) = Inr ()"
    by (simp add: testLibrary_def fromLibrary_def)
  from rsa_only_pkcs1v15_families [OF pkcs, where p = 9 and message = "[1, 2, 3]"
      and handshakeBodies = "[1, 2, 3]" and remoteKeySignature = "[9, 4, 1, 2, 3]"
      and hashAlgorithm = 4 and intermediates = "[]"]
  have one: "verifyKeySignature testLibrary [1, 2, 3] [9, 4, 1, 2, 3] 4 [[3, 9, 4]] = Inr ()
    \<and> verifyCertificateVerify testLibrary [1, 2, 3] 4 [9, 4, 1, 2, 3] [[3, 9, 4]] = Inr ()"
    using verified by simp
  from rsa_only_pkcs1v15_families [OF pss, where p = 9 and message = "[1, 2, 3]"
      and handshakeBodies = "[1, 2, 3]" and remoteKeySignature = "[9, 4, 1, 2, 3]"
      and hashAlgorithm = 4 and intermediates = "[]"]
  have two: "verifyKeySignature testLibrary [1, 2, 3] [9, 4, 1, 2, 3] 4 [[3, 9, 13]]
       = Inl errKeySignatureVerifyUnimplemented
   \<and> verifyCertificateVerify testLibrary [1, 2, 3] 4 [9, 4, 1, 2, 3] [[3, 9, 13]]
       = Inl errKeySignatureVerifyUnimplemented"
    by simp
  from rsa_only_pkcs1v15_families [OF other, where message = "[1, 2, 3]"
      and handshakeBodies = "[1, 2, 3]" and remoteKeySignature = "[9, 4, 1, 2, 3]"
      and hashAlgorithm = 4 and intermediates = "[]"]
  have three: "verifyKeySignature testLibrary [1, 2, 3] [9, 4, 1, 2, 3] 4 [[5, 9, 4]]
       = Inl errKeySignatureVerifyUnimplemented
   \<and> verifyCertificateVerify testLibrary [1, 2, 3] 4 [9, 4, 1, 2, 3] [[5, 9, 4]]
       = Inl errKeySignatureVerifyUnimplemented"
    by simp
  from pkcs pss other one two three show ?thesis
    by (simp del: One_nat_def)
qed

section \<open>Chain validation\<close>

lemma addCerts_foldl: "addCerts L pool certs = foldl (x509_AddCert L) pool certs"
  by (induction certs arbitrary: pool) simp_all

text \<open>
  C9, as amended. Both validators load the chain and fail with its error when loading
  fails. Otherwise they validate the leaf (element 0) with the caller's roots, an
  intermediate pool to which every later certificate has been added in order, and the
  reading of the clock as the current time, and return what \<^verbatim>\<open>Certificate.Verify\<close>
  returns. \<open>verifyClientCert\<close> asks for the extended key usage "client authentication" and
  sets no name. \<open>verifyServerCert\<close> sets the expected server name and passes no list of key
  usages; with a library that reads the empty list as "server authentication", as Go's
  does, it validates exactly as if it had asked for "server authentication", so the leaf's
  extended key usage is restricted in the server role too.
\<close>

theorem chain_validators:
  "(loadCerts L rawCertificates = Inl err
      \<longrightarrow> verifyClientCert L rawCertificates roots = Inl err
          \<and> verifyServerCert L rawCertificates roots serverName = Inl err)
   \<and> (loadCerts L rawCertificates = Inr (leaf # intermediates)
      \<longrightarrow> verifyClientCert L rawCertificates roots
            = (case x509_Verify L leaf
                      \<lparr>DNSName = [],
                       Intermediates = foldl (x509_AddCert L) (x509_NewCertPool L) intermediates,
                       Roots = roots,
                       CurrentTime = time_Now L,
                       KeyUsages = [ExtKeyUsageClientAuth]\<rparr> of
                 Inl e \<Rightarrow> Inl (libraryError e)
               | Inr paths \<Rightarrow> Inr paths)
          \<and> verifyServerCert L rawCertificates roots serverName
            = (case x509_Verify L leaf
                      \<lparr>DNSName = serverName,
                       Intermediates = foldl (x509_AddCert L) (x509_NewCertPool L) intermediates,
                       Roots = roots,
                       CurrentTime = time_Now L,
                       KeyUsages = []\<rparr> of
                 Inl e \<Rightarrow> Inl (libraryError e)
               | Inr paths \<Rightarrow> Inr paths))
   \<and> (loadCerts L rawCertificates = Inr (leaf # intermediates)
        \<and> (\<forall>cert opts. x509_Verify L cert (opts\<lparr>KeyUsages := []\<rparr>)
                          = x509_Verify L cert (opts\<lparr>KeyUsages := [ExtKeyUsageServerAuth]\<rparr>))
      \<longrightarrow> verifyServerCert L rawCertificates roots serverName
            = (case x509_Verify L leaf
                      \<lparr>DNSName = serverName,
                       Intermediates = foldl (x509_AddCert L) (x509_NewCertPool L) intermediates,
                       Roots = roots,
                       CurrentTime = time_Now L,
                       KeyUsages = [ExtKeyUsageServerAuth]\<rparr> of
                 Inl e \<Rightarrow> Inl (libraryError e)
               | Inr paths \<Rightarrow> Inr paths))"
proof (intro conjI impI)
  assume "loadCerts L rawCertificates = Inl err"
  then show "verifyClientCert L rawCertificates roots = Inl err"
    and "verifyServerCert L rawCertificates roots serverName = Inl err"
    by (simp_all add: verifyClientCert_def verifyServerCert_def)
next
  assume "loadCerts L rawCertificates = Inr (leaf # intermediates)"
  then show "verifyClientCert L rawCertificates roots
            = (case x509_Verify L leaf
                      \<lparr>DNSName = [],
                       Intermediates = foldl (x509_AddCert L) (x509_NewCertPool L) intermediates,
                       Roots = roots,
                       CurrentTime = time_Now L,
                       KeyUsages = [ExtKeyUsageClientAuth]\<rparr> of
                 Inl e \<Rightarrow> Inl (libraryError e)
               | Inr paths \<Rightarrow> Inr paths)"
    and "verifyServerCert L rawCertificates roots serverName
            = (case x509_Verify L leaf
                      \<lparr>DNSName = serverName,
                       Intermediates = foldl (x509_AddCert L) (x509_NewCertPool L) intermediates,
                       Roots = roots,
                       CurrentTime = time_Now L,
                       KeyUsages = []\<rparr> of
                 Inl e \<Rightarrow> Inl (libraryError e)
               | Inr paths \<Rightarrow> Inr paths)"
    by (simp_all add: verifyClientCert_def verifyServerCert_def addCerts_foldl fromLibrary_def)
next
  let ?opts = "\<lparr>DNSName = serverName,
                 Intermediates = foldl (x509_AddCert L) (x509_NewCertPool L) intermediates,
                 Roots = roots,
                 CurrentTime = time_Now L,
                 KeyUsages = []\<rparr>"
  assume "loadCerts L rawCertificates = Inr (leaf # intermediates)
        \<and> (\<forall>cert opts. x509_Verify L cert (opts\<lparr>KeyUsages := []\<rparr>)
                          = x509_Verify L cert (opts\<lparr>KeyUsages := [ExtKeyUsageServerAuth]\<rparr>))"
  then have loaded: "loadCerts L rawCertificates = Inr (leaf # intermediates)"
    and "x509_Verify L leaf (?opts\<lparr>KeyUsages := []\<rparr>)
          = x509_Verify L leaf (?opts\<lparr>KeyUsages := [ExtKeyUsageServerAuth]\<rparr>)"
    by blast+
  then have "x509_Verify L leaf ?opts
      = x509_Verify L leaf
          \<lparr>DNSName = serverName,
           Intermediates = foldl (x509_AddCert L) (x509_NewCertPool L) intermediates,
           Roots = roots,
           CurrentTime = time_Now L,
           KeyUsages = [ExtKeyUsageServerAuth]\<rparr>"
    by simp
  with loaded show "verifyServerCert L rawCertificates roots serverName
            = (case x509_Verify L leaf
                      \<lparr>DNSName = serverName,
                       Intermediates = foldl (x509_AddCert L) (x509_NewCertPool L) intermediates,
                       Roots = roots,
                       CurrentTime = time_Now L,
                       KeyUsages = [ExtKeyUsageServerAuth]\<rparr> of
                 Inl e \<Rightarrow> Inl (libraryError e)
               | Inr paths \<Rightarrow> Inr paths)"
    by (simp add: verifyServerCert_def addCerts_foldl fromLibrary_def)
qed

lemma testParse_leaf:
  "x509_ParseCertificate testLibrary [1, 7, 16, 1, 1]
     = Inr \<lparr>Raw = [1, 7, 16, 1, 1], PublicKey = ed25519_PublicKey 7,
            SignatureAlgorithm = PureEd25519, ExtKeyUsage = [ExtKeyUsageServerAuth],
            DNSNames = [''example.org'']\<rparr>"
  "x509_ParseCertificate testLibrary [1, 7, 16, 2, 1]
     = Inr \<lparr>Raw = [1, 7, 16, 2, 1], PublicKey = ed25519_PublicKey 7,
            SignatureAlgorithm = PureEd25519, ExtKeyUsage = [ExtKeyUsageClientAuth],
            DNSNames = [''example.org'']\<rparr>"
  "x509_ParseCertificate testLibrary [3, 9, 4]
     = Inr \<lparr>Raw = [3, 9, 4], PublicKey = rsa_PublicKey 9,
            SignatureAlgorithm = SHA256WithRSA, ExtKeyUsage = [], DNSNames = []\<rparr>"
  "x509_ParseCertificate testLibrary [9] = Inl ''x509: malformed certificate''"
  by (simp_all add: testLibrary_def testParse_def testKey_def testAlgorithm_def testUsage_def
      testNames_def)

lemma testLibrary_x509_Verify: "x509_Verify testLibrary = testVerify"
  by (simp add: testLibrary_def)

lemma testVerify_empty_means_server:
  "x509_Verify testLibrary cert (opts\<lparr>KeyUsages := []\<rparr>)
     = x509_Verify testLibrary cert (opts\<lparr>KeyUsages := [ExtKeyUsageServerAuth]\<rparr>)"
  by (simp add: testLibrary_x509_Verify testVerify_def Let_def)

theorem chain_validators_witness:
  "loadCerts testLibrary [[1, 7, 16, 2, 1], [9]]
     = Inl (libraryError ''x509: malformed certificate'')
   \<and> verifyClientCert testLibrary [[1, 7, 16, 2, 1], [9]] []
       = Inl (libraryError ''x509: malformed certificate'')
   \<and> verifyServerCert testLibrary [[1, 7, 16, 2, 1], [9]] [] ''example.org''
       = Inl (libraryError ''x509: malformed certificate'')
   \<and> loadCerts testLibrary [[1, 7, 16, 2, 1], [3, 9, 4]]
       = Inr [\<lparr>Raw = [1, 7, 16, 2, 1], PublicKey = ed25519_PublicKey 7,
            SignatureAlgorithm = PureEd25519, ExtKeyUsage = [ExtKeyUsageClientAuth],
            DNSNames = [''example.org'']\<rparr>,
              \<lparr>Raw = [3, 9, 4], PublicKey = rsa_PublicKey 9,
            SignatureAlgorithm = SHA256WithRSA, ExtKeyUsage = [], DNSNames = []\<rparr>]
   \<and> verifyClientCert testLibrary [[1, 7, 16, 2, 1], [3, 9, 4]]
         [\<lparr>Raw = [1, 7, 16, 2, 1], PublicKey = ed25519_PublicKey 7,
            SignatureAlgorithm = PureEd25519, ExtKeyUsage = [ExtKeyUsageClientAuth],
            DNSNames = [''example.org'']\<rparr>]
       = Inr [[\<lparr>Raw = [1, 7, 16, 2, 1], PublicKey = ed25519_PublicKey 7,
            SignatureAlgorithm = PureEd25519, ExtKeyUsage = [ExtKeyUsageClientAuth],
            DNSNames = [''example.org'']\<rparr>]]
   \<and> verifyServerCert testLibrary [[1, 7, 16, 2, 1], [3, 9, 4]]
         [\<lparr>Raw = [1, 7, 16, 2, 1], PublicKey = ed25519_PublicKey 7,
            SignatureAlgorithm = PureEd25519, ExtKeyUsage = [ExtKeyUsageClientAuth],
            DNSNames = [''example.org'']\<rparr>]
         ''example.org''
       = Inl (libraryError ''x509: certificate specifies an incompatible key usage'')
   \<and> (\<forall>cert opts. x509_Verify testLibrary cert (opts\<lparr>KeyUsages := []\<rparr>)
         = x509_Verify testLibrary cert (opts\<lparr>KeyUsages := [ExtKeyUsageServerAuth]\<rparr>))"
proof -
  let ?leaf = "\<lparr>Raw = [1, 7, 16, 2, 1], PublicKey = ed25519_PublicKey 7,
            SignatureAlgorithm = PureEd25519, ExtKeyUsage = [ExtKeyUsageClientAuth],
            DNSNames = [''example.org'']\<rparr>"
  let ?ca = "\<lparr>Raw = [3, 9, 4], PublicKey = rsa_PublicKey 9,
            SignatureAlgorithm = SHA256WithRSA, ExtKeyUsage = [], DNSNames = []\<rparr>"
  have failed: "loadCerts testLibrary [[1, 7, 16, 2, 1], [9]]
      = Inl (libraryError ''x509: malformed certificate'')"
    by (simp add: loadCerts_def testParse_leaf)
  have loaded: "loadCerts testLibrary [[1, 7, 16, 2, 1], [3, 9, 4]] = Inr (?leaf # [?ca])"
    by (simp add: loadCerts_def testParse_leaf)
  have default: "\<forall>cert opts. x509_Verify testLibrary cert (opts\<lparr>KeyUsages := []\<rparr>)
      = x509_Verify testLibrary cert (opts\<lparr>KeyUsages := [ExtKeyUsageServerAuth]\<rparr>)"
    by (simp add: testVerify_empty_means_server)
  from chain_validators [of testLibrary "[[1, 7, 16, 2, 1], [9]]"
      "libraryError ''x509: malformed certificate''" "[]" "''example.org''"] failed
  have one: "verifyClientCert testLibrary [[1, 7, 16, 2, 1], [9]] []
       = Inl (libraryError ''x509: malformed certificate'')
   \<and> verifyServerCert testLibrary [[1, 7, 16, 2, 1], [9]] [] ''example.org''
       = Inl (libraryError ''x509: malformed certificate'')"
    by blast
  note valid = chain_validators [of testLibrary "[[1, 7, 16, 2, 1], [3, 9, 4]]" _ "[?leaf]"
      "''example.org''" ?leaf "[?ca]"]
  from valid loaded
  have two: "verifyClientCert testLibrary [[1, 7, 16, 2, 1], [3, 9, 4]] [?leaf] = Inr [[?leaf]]"
    by (simp add: testLibrary_x509_Verify testVerify_def Let_def testAllows_def)
  from valid loaded default
  have "verifyServerCert testLibrary [[1, 7, 16, 2, 1], [3, 9, 4]] [?leaf] ''example.org''
      = (case x509_Verify testLibrary ?leaf
                \<lparr>DNSName = ''example.org'',
                 Intermediates
                   = foldl (x509_AddCert testLibrary) (x509_NewCertPool testLibrary) [?ca],
                 Roots = [?leaf],
                 CurrentTime = time_Now testLibrary,
                 KeyUsages = [ExtKeyUsageServerAuth]\<rparr> of
           Inl e \<Rightarrow> Inl (libraryError e)
         | Inr paths \<Rightarrow> Inr paths)"
    by blast
  then have three:
    "verifyServerCert testLibrary [[1, 7, 16, 2, 1], [3, 9, 4]] [?leaf] ''example.org''
       = Inl (libraryError ''x509: certificate specifies an incompatible key usage'')"
    by (simp add: testLibrary_x509_Verify testVerify_def Let_def testAllows_def)
  from failed loaded one two three default show ?thesis
    by simp
qed

text \<open>
  C9, as stated, says that \<open>verifyServerCert\<close> performs no extended-key-usage restriction.
  With the key-usage rule of \<^verbatim>\<open>Certificate.Verify\<close>, two leaves that differ only in their
  declared usage fare differently in the server role: the one declared for server
  authentication validates, the one declared for client authentication is refused for its
  key usage, while \<open>verifyClientCert\<close> accepts it.
\<close>

theorem verifyServerCert_key_usage_counterexample:
  "verifyServerCert testLibrary [[1, 7, 16, 1, 1]]
       [\<lparr>Raw = [1, 7, 16, 1, 1], PublicKey = ed25519_PublicKey 7,
            SignatureAlgorithm = PureEd25519, ExtKeyUsage = [ExtKeyUsageServerAuth],
            DNSNames = [''example.org'']\<rparr>]
       ''example.org''
     = Inr [[\<lparr>Raw = [1, 7, 16, 1, 1], PublicKey = ed25519_PublicKey 7,
            SignatureAlgorithm = PureEd25519, ExtKeyUsage = [ExtKeyUsageServerAuth],
            DNSNames = [''example.org'']\<rparr>]]
   \<and> verifyServerCert testLibrary [[1, 7, 16, 2, 1]]
       [\<lparr>Raw = [1, 7, 16, 2, 1], PublicKey = ed25519_PublicKey 7,
            SignatureAlgorithm = PureEd25519, ExtKeyUsage = [ExtKeyUsageClientAuth],
            DNSNames = [''example.org'']\<rparr>]
       ''example.org''
     = Inl (libraryError ''x509: certificate specifies an incompatible key usage'')
   \<and> verifyClientCert testLibrary [[1, 7, 16, 2, 1]]
       [\<lparr>Raw = [1, 7, 16, 2, 1], PublicKey = ed25519_PublicKey 7,
            SignatureAlgorithm = PureEd25519, ExtKeyUsage = [ExtKeyUsageClientAuth],
            DNSNames = [''example.org'']\<rparr>]
     = Inr [[\<lparr>Raw = [1, 7, 16, 2, 1], PublicKey = ed25519_PublicKey 7,
            SignatureAlgorithm = PureEd25519, ExtKeyUsage = [ExtKeyUsageClientAuth],
            DNSNames = [''example.org'']\<rparr>]]"
  by (simp add: verifyServerCert_def verifyClientCert_def loadCerts_def testParse_leaf
      fromLibrary_def testLibrary_x509_Verify testVerify_def Let_def testAllows_def)

section \<open>The Edwards-curve CertificateVerify signature\<close>

text \<open>
  What the two sides of CertificateVerify hand to the primitives, for any library: the
  signer passes the SHA-256 digest of the transcript to all three key types; the verifier
  checks an Edwards-curve signature against the transcript itself and an elliptic-curve DSA
  signature against the digest of the negotiated hash.
\<close>

lemma generateCertificateVerify_signs_sha256:
  assumes "sha256_Sum L handshakeBodies = Inr hashed"
  shows "generateCertificateVerify L handshakeBodies (ed25519_PrivateKey p) hashAlgorithm
           = fromLibrary (ed25519_Sign L p (rand_Reader L) hashed 0)"
    and "generateCertificateVerify L handshakeBodies (ecdsa_PrivateKey p) hashAlgorithm
           = fromLibrary (ecdsa_Sign L p (rand_Reader L) hashed (cryptoHash L hashAlgorithm))"
    and "generateCertificateVerify L handshakeBodies (rsa_PrivateKey p) hashAlgorithm
           = fromLibrary (rsa_Sign L p (rand_Reader L) hashed (cryptoHash L hashAlgorithm))"
  using assms by (simp_all add: generateCertificateVerify_def)

lemma verifyCertificateVerify_ed25519_raw:
  assumes "x509_ParseCertificate L leaf = Inr certificate"
    and "PublicKey certificate = ed25519_PublicKey p"
  shows "verifyCertificateVerify L handshakeBodies hashAlgorithm remoteKeySignature
           (leaf # intermediates)
         = (if ed25519_Verify L p handshakeBodies remoteKeySignature then Inr ()
            else Inl errKeySignatureMismatch)"
  using assms by (simp add: verifyCertificateVerify_def)

lemma verifyCertificateVerify_ecdsa_negotiated_digest:
  assumes "x509_ParseCertificate L leaf = Inr certificate"
    and "PublicKey certificate = ecdsa_PublicKey p"
    and "asn1_Unmarshal L remoteKeySignature = Inr (rest, ecdsaSig)"
    and "0 < R ecdsaSig" and "0 < S ecdsaSig"
  shows "verifyCertificateVerify L handshakeBodies hashAlgorithm remoteKeySignature
           (leaf # intermediates)
         = (if ecdsa_Verify L p (digest L hashAlgorithm handshakeBodies) (R ecdsaSig) (S ecdsaSig)
            then Inr () else Inl errKeySignatureMismatch)"
  using assms by (simp add: verifyCertificateVerify_def Sign_le_0)

lemma testLibrary_sha256_Sum_123:
  "sha256_Sum testLibrary [1, 2, 3] = Inr ([1, 2, 3] @ replicate 29 0)"
  by (simp add: testLibrary_def numeral_eq_Suc)

text \<open>
  C1 says that \<open>generateCertificateVerify\<close> signs the raw transcript with an Edwards-curve
  key. The source signs \<^verbatim>\<open>hashed\<close>, the SHA-256 digest, in that branch as in the other
  two, while \<open>generateKeySignature\<close> signs the raw message and \<open>verifyCertificateVerify\<close>
  verifies against the raw transcript. At the transcript \<open>01 02 03\<close> with key 7 the signer
  is given the 32-byte digest and not the transcript, and the package's own verifier
  rejects the signature it produced, where it accepts a signature over the transcript.
\<close>

theorem generateCertificateVerify_ed25519_prehashed:
  "sha256_Sum testLibrary [1, 2, 3] = Inr ([1, 2, 3] @ replicate 29 0)
   \<and> generateCertificateVerify testLibrary [1, 2, 3] (ed25519_PrivateKey 7) 4
       = fromLibrary (ed25519_Sign testLibrary 7 (rand_Reader testLibrary)
           ([1, 2, 3] @ replicate 29 0) 0)
   \<and> generateCertificateVerify testLibrary [1, 2, 3] (ed25519_PrivateKey 7) 4
       \<noteq> fromLibrary (ed25519_Sign testLibrary 7 (rand_Reader testLibrary) [1, 2, 3] 0)
   \<and> generateCertificateVerify testLibrary [1, 2, 3] (ed25519_PrivateKey 7) 4
       = Inr (7 # [1, 2, 3] @ replicate 29 0)
   \<and> verifyCertificateVerify testLibrary [1, 2, 3] 4 (7 # [1, 2, 3] @ replicate 29 0)
         [[1, 7, 16]]
       = Inl errKeySignatureMismatch
   \<and> verifyCertificateVerify testLibrary [1, 2, 3] 4 [7, 1, 2, 3] [[1, 7, 16]] = Inr ()"
proof -
  have "x509_ParseCertificate testLibrary [1, 7, 16]
      = Inr \<lparr>Raw = [1, 7, 16], PublicKey = ed25519_PublicKey 7,
             SignatureAlgorithm = PureEd25519,
            ExtKeyUsage = [], DNSNames = []\<rparr>"
    by (simp add: testLibrary_def testParse_def testKey_def testAlgorithm_def)
  moreover have "ed25519_Sign testLibrary k rnd msg opts = Inr (of_nat k # msg)"
      and "ed25519_Verify testLibrary k msg sig \<longleftrightarrow> sig = of_nat k # msg"
    for k rnd msg opts sig
    by (simp_all add: testLibrary_def)
  ultimately show ?thesis
    by (simp add: generateCertificateVerify_def verifyCertificateVerify_def
        testLibrary_sha256_Sum_123 fromLibrary_def)
qed

end
